theory Spec2Isabelle
  imports Main "HOL-Library.Sublist"
begin

section \<open>Python values\<close>

text \<open>
  The target record of \<^verbatim>\<open>lib/lrgasp/metadata_validate.py\<close> holds metadata read from JSON.
  Its values are modelled by the JSON-shaped fragment of Python's objects: \<^verbatim>\<open>None\<close>,
  \<^verbatim>\<open>bool\<close>, \<^verbatim>\<open>int\<close> (unbounded), \<^verbatim>\<open>str\<close>, \<^verbatim>\<open>list\<close> and \<^verbatim>\<open>dict\<close> with string keys.
  A \<^verbatim>\<open>str\<close> is a list of code points below 256; floats are not modelled.
\<close>

datatype pyval =
    VNone
  | VBool bool
  | VInt int
  | VStr string
  | VList "pyval list"
  | VDict "(string \<times> pyval) list"

text \<open>Exceptions: the class, the message and \<^verbatim>\<open>__cause__\<close> (set by \<^verbatim>\<open>raise ... from ex\<close>).\<close>

datatype exn_class =
    ValueError
  | TypeError
  | AttributeError
  | LrgaspException
  | ValueErrorSubclass string
  | OtherException string

datatype exn = Exn (exn_class: exn_class) (message: string) (cause: "exn option")

text \<open>
  \<^verbatim>\<open>except ValueError\<close> catches \<^verbatim>\<open>ValueError\<close> and its subclasses. The class
  \<^verbatim>\<open>LrgaspException\<close> is imported from the package \<^verbatim>\<open>lrgasp\<close>, whose declaration is
  not part of the sources at hand; whether it derives from \<^verbatim>\<open>ValueError\<close> is the
  parameter \<open>lve\<close> of every function that catches.
\<close>

fun is_ValueError :: "bool \<Rightarrow> exn \<Rightarrow> bool" where
  "is_ValueError lve (Exn c m x) =
     (case c of
        ValueError \<Rightarrow> True
      | ValueErrorSubclass n \<Rightarrow> True
      | LrgaspException \<Rightarrow> lve
      | TypeError \<Rightarrow> False
      | AttributeError \<Rightarrow> False
      | OtherException n \<Rightarrow> False)"

subsection \<open>Formatting: \<^verbatim>\<open>str()\<close> and \<^verbatim>\<open>repr()\<close>, as used by the f-strings\<close>

fun str_of_nat :: "nat \<Rightarrow> string" where
  "str_of_nat n =
     (if n < 10 then [''0123456789'' ! n]
      else str_of_nat (n div 10) @ [''0123456789'' ! (n mod 10)])"

declare str_of_nat.simps [simp del]

definition str_of_int :: "int \<Rightarrow> string" where
  "str_of_int i = (if i < 0 then CHR ''-'' # str_of_nat (nat (- i)) else str_of_nat (nat i))"

definition hex2 :: "nat \<Rightarrow> string" where
  "hex2 n = [''0123456789abcdef'' ! ((n div 16) mod 16), ''0123456789abcdef'' ! (n mod 16)]"

definition is_printable :: "char \<Rightarrow> bool" where
  "is_printable c =
     (let n = (of_char c :: nat)
      in (32 \<le> n \<and> n < 127) \<or> (161 \<le> n \<and> n \<noteq> 173))"

definition repr_char :: "char \<Rightarrow> char \<Rightarrow> string" where
  "repr_char q c =
     (if c = q \<or> c = CHR 0x5C then [CHR 0x5C, c]
      else if c = CHR 0x09 then [CHR 0x5C, CHR ''t'']
      else if c = CHR 0x0A then [CHR 0x5C, CHR ''n'']
      else if c = CHR 0x0D then [CHR 0x5C, CHR ''r'']
      else if is_printable c then [c]
      else [CHR 0x5C, CHR ''x''] @ hex2 (of_char c))"

definition repr_str :: "string \<Rightarrow> string" where
  "repr_str s =
     (let q = (if CHR 0x27 \<in> set s \<and> CHR 0x22 \<notin> set s then CHR 0x22 else CHR 0x27)
      in [q] @ concat (map (repr_char q) s) @ [q])"

fun join :: "string \<Rightarrow> string list \<Rightarrow> string" where
  "join sep [] = []"
| "join sep [x] = x"
| "join sep (x # y # ys) = x @ sep @ join sep (y # ys)"

fun py_repr :: "pyval \<Rightarrow> string" where
  "py_repr VNone = ''None''"
| "py_repr (VBool b) = (if b then ''True'' else ''False'')"
| "py_repr (VInt i) = str_of_int i"
| "py_repr (VStr s) = repr_str s"
| "py_repr (VList xs) = ''['' @ join '', '' (map py_repr xs) @ '']''"
| "py_repr (VDict d) =
     ''{'' @ join '', '' (map (\<lambda>kv. repr_str (fst kv) @ '': '' @ py_repr (snd kv)) d) @ ''}''"

definition py_str :: "pyval \<Rightarrow> string" where
  "py_str v = (case v of VStr s \<Rightarrow> s | _ \<Rightarrow> py_repr v)"

definition py_type_name :: "pyval \<Rightarrow> string" where
  "py_type_name v =
     (case v of
        VNone \<Rightarrow> ''NoneType''
      | VBool b \<Rightarrow> ''bool''
      | VInt i \<Rightarrow> ''int''
      | VStr s \<Rightarrow> ''str''
      | VList xs \<Rightarrow> ''list''
      | VDict d \<Rightarrow> ''dict'')"

subsection \<open>Equality, membership, length\<close>

text \<open>
  Python's \<^verbatim>\<open>==\<close>: \<^verbatim>\<open>bool\<close> is a subclass of \<^verbatim>\<open>int\<close>, so \<^verbatim>\<open>True == 1\<close>; lists compare
  element by element; dicts compare as key/value sets, whatever the insertion order.
\<close>

fun py_eq :: "pyval \<Rightarrow> pyval \<Rightarrow> bool" where
  "py_eq VNone VNone = True"
| "py_eq (VBool a) (VBool b) = (a = b)"
| "py_eq (VBool a) (VInt j) = ((if a then 1 else 0) = j)"
| "py_eq (VInt i) (VBool b) = (i = (if b then 1 else 0))"
| "py_eq (VInt i) (VInt j) = (i = j)"
| "py_eq (VStr s) (VStr t) = (s = t)"
| "py_eq (VList xs) (VList ys) = list_all2 py_eq xs ys"
| "py_eq (VDict d) (VDict e) =
     (length d = length e \<and>
      list_all (\<lambda>kv. case map_of e (fst kv) of None \<Rightarrow> False | Some w \<Rightarrow> py_eq (snd kv) w) d)"
| "py_eq _ _ = False"

text \<open>\<^verbatim>\<open>x in xs\<close> for a list \<open>xs\<close>.\<close>

definition py_in :: "pyval \<Rightarrow> pyval list \<Rightarrow> bool" where
  "py_in x xs = list_ex (\<lambda>y. py_eq y x) xs"

text \<open>\<^verbatim>\<open>len(val)\<close>: a \<^verbatim>\<open>TypeError\<close> for an object with no length.\<close>

definition py_len :: "pyval \<Rightarrow> exn + nat" where
  "py_len v =
     (case v of
        VStr s \<Rightarrow> Inr (length s)
      | VList xs \<Rightarrow> Inr (length xs)
      | VDict d \<Rightarrow> Inr (length d)
      | _ \<Rightarrow> Inl (Exn TypeError (''object of type '' @ repr_str (py_type_name v) @ '' has no len()'') None))"

section \<open>Type objects\<close>

text \<open>
  A \<^verbatim>\<open>dtype\<close> is a Python type object. The program does three things with one: it
  compares it with \<^verbatim>\<open>str\<close>, \<^verbatim>\<open>int\<close>, \<^verbatim>\<open>dict\<close> and \<^verbatim>\<open>list\<close>, it reads \<^verbatim>\<open>__name__\<close>,
  and it calls it on a value. The three types of \<^verbatim>\<open>_should_convert\<close>'s tuple are never
  called, only tested with \<^verbatim>\<open>isinstance\<close>; every other type is only called. A class other
  than \<^verbatim>\<open>list\<close> is given by its name and its constructor.
\<close>

datatype primtype = TStr | TInt | TDict

datatype convtype = TList | TClass string "pyval \<Rightarrow> exn + pyval"

datatype pytype = Prim primtype | Conv convtype

fun prim_name :: "primtype \<Rightarrow> string" where
  "prim_name TStr = ''str''"
| "prim_name TInt = ''int''"
| "prim_name TDict = ''dict''"

fun conv_name :: "convtype \<Rightarrow> string" where
  "conv_name TList = ''list''"
| "conv_name (TClass n c) = n"

fun type_name :: "pytype \<Rightarrow> string" where
  "type_name (Prim p) = prim_name p"
| "type_name (Conv c) = conv_name c"

fun is_list_type :: "pytype \<Rightarrow> bool" where
  "is_list_type (Conv TList) = True"
| "is_list_type (Conv (TClass n c)) = False"
| "is_list_type (Prim p) = False"

text \<open>\<^verbatim>\<open>isinstance(val, t)\<close> for the three types that are not converted.\<close>

fun isinstance :: "pyval \<Rightarrow> primtype \<Rightarrow> bool" where
  "isinstance (VStr s) TStr = True"
| "isinstance (VInt i) TInt = True"
| "isinstance (VBool b) TInt = True"
| "isinstance (VDict d) TDict = True"
| "isinstance v t = False"

text \<open>\<^verbatim>\<open>list(val)\<close>: the items of an iterable, a \<^verbatim>\<open>TypeError\<close> otherwise.\<close>

definition list_call :: "pyval \<Rightarrow> exn + pyval" where
  "list_call v =
     (case v of
        VStr s \<Rightarrow> Inr (VList (map (\<lambda>c. VStr [c]) s))
      | VList xs \<Rightarrow> Inr (VList xs)
      | VDict d \<Rightarrow> Inr (VList (map (\<lambda>kv. VStr (fst kv)) d))
      | _ \<Rightarrow> Inl (Exn TypeError (repr_str (py_type_name v) @ '' object is not iterable'') None))"

text \<open>\<^verbatim>\<open>dtype(val)\<close>.\<close>

fun py_call :: "convtype \<Rightarrow> pyval \<Rightarrow> exn + pyval" where
  "py_call TList v = list_call v"
| "py_call (TClass n c) v = c v"

text \<open>\<^verbatim>\<open>bool\<close>, a class whose constructor accepts every value.\<close>

definition bool_call :: "pyval \<Rightarrow> exn + pyval" where
  "bool_call v =
     Inr (VBool (case v of
        VNone \<Rightarrow> False
      | VBool b \<Rightarrow> b
      | VInt i \<Rightarrow> i \<noteq> 0
      | VStr s \<Rightarrow> s \<noteq> []
      | VList xs \<Rightarrow> xs \<noteq> []
      | VDict d \<Rightarrow> d \<noteq> []))"

definition TBool :: pytype where
  "TBool = Conv (TClass ''bool'' bool_call)"

section \<open>Field descriptors\<close>

record Field =
  name :: string
  dtype :: pytype
  element_dtype :: "pytype option"
  allow_empty :: bool
  optional :: bool
  validator :: "(pyval \<Rightarrow> exn option) option"

text \<open>
  \<^verbatim>\<open>Field.__new__\<close>. The message is a plain string literal, not an f-string. The
  defaults of the keyword arguments (\<^verbatim>\<open>dtype=str\<close>, \<^verbatim>\<open>element_dtype=None\<close>,
  \<^verbatim>\<open>allow_empty=False\<close>, \<^verbatim>\<open>optional=False\<close>, \<^verbatim>\<open>validator=None\<close>) are passed explicitly.
\<close>

definition Field_new ::
  "string \<Rightarrow> pytype \<Rightarrow> pytype option \<Rightarrow> bool \<Rightarrow> bool \<Rightarrow> (pyval \<Rightarrow> exn option) option
   \<Rightarrow> exn + Field" where
  "Field_new nm dt edt ae opt vd =
     (if is_list_type dt \<and> (case edt of None \<Rightarrow> True | Some t \<Rightarrow> False)
      then Inl (Exn LrgaspException ''list field {name} must specify element_dtype'' None)
      else Inr \<lparr>name = nm, dtype = dt, element_dtype = edt, allow_empty = ae,
                optional = opt, validator = vd\<rparr>)"

section \<open>Checking one value\<close>

text \<open>
  \<^verbatim>\<open>_should_convert\<close>. Where the checks below test it, they distinguish the two cases of
  the type, which also gives the constructor to call.
\<close>

fun should_convert :: "pytype \<Rightarrow> bool" where
  "should_convert (Prim p) = False"
| "should_convert (Conv c) = True"

definition convert_type :: "bool \<Rightarrow> string \<Rightarrow> Field \<Rightarrow> convtype \<Rightarrow> pyval \<Rightarrow> exn + pyval" where
  "convert_type lve desc field dt val =
     (case py_call dt val of
        Inr v \<Rightarrow> Inr v
      | Inl ex \<Rightarrow>
          if is_ValueError lve ex
          then Inl (Exn LrgaspException
                 (desc @ '' field '' @ name field @ '' is not a valid '' @ conv_name dt @ '': ''
                    @ py_str val) (Some ex))
          else Inl ex)"

text \<open>Calling \<^verbatim>\<open>None\<close> raises a \<^verbatim>\<open>TypeError\<close>.\<close>

definition none_call :: exn where
  "none_call = Exn TypeError (repr_str ''NoneType'' @ '' object is not callable'') None"

definition validate_value :: "bool \<Rightarrow> string \<Rightarrow> Field \<Rightarrow> pyval \<Rightarrow> exn option" where
  "validate_value lve desc field val =
     (case validator field of
        None \<Rightarrow> Some none_call
      | Some vd \<Rightarrow>
          (case vd val of
             None \<Rightarrow> None
           | Some ex \<Rightarrow>
               if is_ValueError lve ex
               then Some (Exn LrgaspException
                      (desc @ '' field '' @ name field @ '' is not valid: '' @ py_str val) (Some ex))
               else Some ex))"

text \<open>What the \<^verbatim>\<open>except\<close> clause of \<^verbatim>\<open>_validate_value\<close> makes of the exception \<open>ex\<close>.\<close>

abbreviation not_valid_error :: "bool \<Rightarrow> string \<Rightarrow> Field \<Rightarrow> pyval \<Rightarrow> exn \<Rightarrow> exn" where
  "not_valid_error lve desc field val ex \<equiv>
     (if is_ValueError lve ex
      then Exn LrgaspException
             (desc @ '' field '' @ name field @ '' is not valid: '' @ py_str val) (Some ex)
      else ex)"

text \<open>The last two statements of \<^verbatim>\<open>_check_scalar\<close> and of \<^verbatim>\<open>_check_list_element\<close>.\<close>

definition validate_and_return :: "bool \<Rightarrow> string \<Rightarrow> Field \<Rightarrow> pyval \<Rightarrow> exn + pyval" where
  "validate_and_return lve desc field val =
     (case validator field of
        None \<Rightarrow> Inr val
      | Some vd \<Rightarrow>
          (case validate_value lve desc field val of
             Some ex \<Rightarrow> Inl ex
           | None \<Rightarrow> Inr val))"

definition check_scalar :: "bool \<Rightarrow> string \<Rightarrow> Field \<Rightarrow> pyval \<Rightarrow> exn + pyval" where
  "check_scalar lve desc field val =
     (case (case dtype field of
              Conv ct \<Rightarrow> convert_type lve desc field ct val
            | Prim pt \<Rightarrow>
                if \<not> isinstance val pt
                then Inl (Exn LrgaspException
                       (desc @ '' field '' @ name field @ '' must be a '' @ prim_name pt) None)
                else Inr val) of
        Inl ex \<Rightarrow> Inl ex
      | Inr val' \<Rightarrow> validate_and_return lve desc field val')"

definition check_list_element :: "bool \<Rightarrow> string \<Rightarrow> Field \<Rightarrow> nat \<Rightarrow> pyval \<Rightarrow> exn + pyval" where
  "check_list_element lve desc field i val =
     (case (case element_dtype field of
              None \<Rightarrow> Inl none_call
            | Some (Conv ct) \<Rightarrow> convert_type lve desc field ct val
            | Some (Prim pt) \<Rightarrow>
                if \<not> isinstance val pt
                then Inl (Exn LrgaspException
                       (desc @ '' field '' @ name field @ ''['' @ str_of_nat i @ ''] must be a ''
                          @ prim_name pt) None)
                else Inr val) of
        Inl ex \<Rightarrow> Inl ex
      | Inr val' \<Rightarrow> validate_and_return lve desc field val')"

section \<open>Checking a list\<close>

text \<open>
  The loop of \<^verbatim>\<open>_check_list\<close> over \<^verbatim>\<open>range(len(vals))\<close>, with the index and the list
  \<^verbatim>\<open>new_vals\<close> of the elements accepted so far. The two \<^verbatim>\<open>print\<close> calls before the
  duplicate error write to standard output only and are left out.
\<close>

fun check_list_loop ::
  "bool \<Rightarrow> string \<Rightarrow> Field \<Rightarrow> nat \<Rightarrow> pyval list \<Rightarrow> pyval list \<Rightarrow> exn + pyval list" where
  "check_list_loop lve desc field i [] new_vals = Inr new_vals"
| "check_list_loop lve desc field i (v # vs) new_vals =
     (case check_list_element lve desc field i v of
        Inl ex \<Rightarrow> Inl ex
      | Inr ival \<Rightarrow>
          if py_in ival new_vals
          then Inl (Exn LrgaspException
                 (desc @ '' ['' @ str_of_nat i @ ''] field '' @ name field @ '' duplicate value ''
                    @ py_str ival) None)
          else check_list_loop lve desc field (Suc i) vs (new_vals @ [ival]))"

definition check_list :: "bool \<Rightarrow> string \<Rightarrow> Field \<Rightarrow> pyval \<Rightarrow> exn + pyval list" where
  "check_list lve desc field vals =
     (case vals of
        VList xs \<Rightarrow> check_list_loop lve desc field 0 xs []
      | _ \<Rightarrow> Inl (Exn LrgaspException (desc @ '' field '' @ name field @ '' must be a list'') None))"

section \<open>Checking the fields of a record\<close>

text \<open>
  The target record answers \<^verbatim>\<open>name in obj\<close>, \<^verbatim>\<open>getattr\<close> and \<^verbatim>\<open>setattr\<close>; it is a map from
  field names to values, in which a name is present exactly when it has a value. A function
  that mutates the record returns the exception raised, if any, and the record as it is then.
\<close>

type_synonym record_obj = "string \<rightharpoonup> pyval"

text \<open>The condition \<^verbatim>\<open>(not field.allow_empty) and (len(val) == 0)\<close>, evaluated left to right.\<close>

definition is_disallowed_empty :: "Field \<Rightarrow> pyval \<Rightarrow> exn + bool" where
  "is_disallowed_empty field val =
     (if \<not> allow_empty field
      then (case py_len val of Inl ex \<Rightarrow> Inl ex | Inr n \<Rightarrow> Inr (n = 0))
      else Inr False)"

definition check_present_field ::
  "bool \<Rightarrow> string \<Rightarrow> Field \<Rightarrow> record_obj \<Rightarrow> exn option \<times> record_obj" where
  "check_present_field lve desc field obj =
     (case obj (name field) of
        None \<Rightarrow>
          (Some (Exn AttributeError (''object has no attribute '' @ repr_str (name field)) None), obj)
      | Some val \<Rightarrow>
          (case is_disallowed_empty field val of
             Inl ex \<Rightarrow> (Some ex, obj)
           | Inr True \<Rightarrow>
               (Some (Exn LrgaspException
                  (desc @ '' field '' @ name field @ '' must be a non-empty '' @ type_name (dtype field))
                  None), obj)
           | Inr False \<Rightarrow>
               (case (if is_list_type (dtype field)
                      then map_sum id VList (check_list lve desc field val)
                      else check_scalar lve desc field val) of
                  Inl ex \<Rightarrow> (Some ex, obj)
                | Inr val' \<Rightarrow> (None, obj(name field \<mapsto> val')))))"

definition check_missing_field ::
  "string \<Rightarrow> Field \<Rightarrow> record_obj \<Rightarrow> exn option \<times> record_obj" where
  "check_missing_field desc field obj =
     (if \<not> optional field
      then (Some (Exn LrgaspException (desc @ '' field '' @ name field @ '' is required'') None), obj)
      else (None, obj))"

definition check_field ::
  "bool \<Rightarrow> string \<Rightarrow> Field \<Rightarrow> record_obj \<Rightarrow> exn option \<times> record_obj" where
  "check_field lve desc field obj =
     (if name field \<in> dom obj
      then check_present_field lve desc field obj
      else check_missing_field desc field obj)"

fun check_from_defs ::
  "bool \<Rightarrow> string \<Rightarrow> Field list \<Rightarrow> record_obj \<Rightarrow> exn option \<times> record_obj" where
  "check_from_defs lve desc [] obj = (None, obj)"
| "check_from_defs lve desc (field # rest) obj =
     (case check_field lve desc field obj of
        (Some ex, obj') \<Rightarrow> (Some ex, obj')
      | (None, obj') \<Rightarrow> check_from_defs lve desc rest obj')"

section \<open>The validators\<close>

text \<open>
  \<^verbatim>\<open>validators.email\<close> and \<^verbatim>\<open>validators.url\<close> belong to the third-party package
  \<^verbatim>\<open>validators\<close>. Each is a parameter: the exception it raises, or whether its result is
  \<^verbatim>\<open>True\<close> (for the URL check, with \<^verbatim>\<open>public=True\<close>).
\<close>

definition validate_email :: "(pyval \<Rightarrow> exn + bool) \<Rightarrow> pyval \<Rightarrow> exn option" where
  "validate_email validators_email val =
     (case validators_email val of
        Inl ex \<Rightarrow> Some ex
      | Inr ok \<Rightarrow>
          if \<not> ok
          then Some (Exn LrgaspException (''invalid email address: '' @ py_str val) None)
          else None)"

definition validate_url :: "(pyval \<Rightarrow> exn + bool) \<Rightarrow> pyval \<Rightarrow> exn option" where
  "validate_url validators_url val =
     (case validators_url val of
        Inl ex \<Rightarrow> Some ex
      | Inr ok \<Rightarrow>
          if \<not> ok
          then Some (Exn LrgaspException (''invalid URL: '' @ py_str val) None)
          else None)"

definition validate_http_url :: "(pyval \<Rightarrow> exn + bool) \<Rightarrow> pyval \<Rightarrow> exn option" where
  "validate_http_url validators_url val =
     (case validate_url validators_url val of
        Some ex \<Rightarrow> Some ex
      | None \<Rightarrow>
          (case val of
             VStr s \<Rightarrow>
               if \<not> (take 5 s = ''http:'' \<or> take 6 s = ''https:'')
               then Some (Exn LrgaspException (''must be an HTTP URL: '' @ py_str val) None)
               else None
           | _ \<Rightarrow>
               Some (Exn AttributeError
                 (repr_str (py_type_name val) @ '' object has no attribute ''
                    @ repr_str ''startswith'') None)))"

text \<open>The character class \<^verbatim>\<open>[a-fA-F0-9]\<close>.\<close>

definition is_hex_char :: "char \<Rightarrow> bool" where
  "is_hex_char c =
     (let n = (of_char c :: nat)
      in (97 \<le> n \<and> n \<le> 102) \<or> (65 \<le> n \<and> n \<le> 70) \<or> (48 \<le> n \<and> n \<le> 57))"

text \<open>
  \<^verbatim>\<open>re.search("^[a-fA-F0-9]{32}$", s)\<close> finds a match or not. Without \<^verbatim>\<open>re.MULTILINE\<close>,
  \<^verbatim>\<open>^\<close> matches at the start of the string only, and \<^verbatim>\<open>$\<close> matches at the end of the string
  and also just before a newline that is the last character of the string.
\<close>

definition md5_re_search :: "string \<Rightarrow> bool" where
  "md5_re_search s =
     (length (take 32 s) = 32 \<and> list_all is_hex_char (take 32 s) \<and>
      (drop 32 s = [] \<or> drop 32 s = [CHR 0x0A]))"

text \<open>
  On a value that is not a string \<^verbatim>\<open>re.search\<close> raises a \<^verbatim>\<open>TypeError\<close> (the message is the
  one of CPython up to 3.10).
\<close>

definition validate_md5 :: "pyval \<Rightarrow> exn option" where
  "validate_md5 val =
     (case val of
        VStr s \<Rightarrow>
          if \<not> md5_re_search s
          then Some (Exn LrgaspException
                 (''MD5 must be a 128-bit hexadecimal number: '' @ py_str val) None)
          else None
      | _ \<Rightarrow> Some (Exn TypeError ''expected string or bytes-like object'' None))"

section \<open>Properties of the record checks\<close>

text \<open>A field whose check raises leaves the record as it was: the write-back is the last step.\<close>

lemma check_present_field_fail_unchanged:
  "check_present_field lve desc f obj = (Some ex, obj') \<Longrightarrow> obj' = obj"
  by (auto simp: check_present_field_def split: option.splits sum.splits bool.splits if_splits)

lemma check_field_fail_unchanged:
  "check_field lve desc f obj = (Some ex, obj') \<Longrightarrow> obj' = obj"
  by (auto simp: check_field_def check_missing_field_def split: if_splits
      dest: check_present_field_fail_unchanged)

text \<open>No check adds or removes a name of the record.\<close>

lemma check_field_dom: "dom (snd (check_field lve desc f obj)) = dom obj"
  by (auto simp: check_field_def check_missing_field_def check_present_field_def
      split: option.splits sum.splits bool.splits if_splits)

lemma check_from_defs_dom: "dom (snd (check_from_defs lve desc fs obj)) = dom obj"
proof (induction fs arbitrary: obj)
  case Nil
  show ?case by simp
next
  case (Cons f fs)
  obtain r obj' where c: "check_field lve desc f obj = (r, obj')"
    by (cases "check_field lve desc f obj")
  have d: "dom obj' = dom obj"
    using check_field_dom [of lve desc f obj] c by simp
  show ?case
  proof (cases r)
    case None
    then show ?thesis using c d Cons.IH [of obj'] by simp
  next
    case (Some ex)
    then show ?thesis using c d by simp
  qed
qed

text \<open>Running a schema is running a first part of it, then the rest on the record it leaves.\<close>

lemma check_from_defs_append:
  "check_from_defs lve desc (pre @ post) obj =
     (case check_from_defs lve desc pre obj of
        (Some ex, obj1) \<Rightarrow> (Some ex, obj1)
      | (None, obj1) \<Rightarrow> check_from_defs lve desc post obj1)"
  by (induction pre arbitrary: obj) (auto split: prod.splits option.splits)

lemma check_from_defs_reach:
  "check_from_defs lve desc pre obj = (None, obj1) \<Longrightarrow>
   check_from_defs lve desc (pre @ f # post) obj =
     (case check_field lve desc f obj1 of
        (Some ex, obj2) \<Rightarrow> (Some ex, obj2)
      | (None, obj2) \<Rightarrow> check_from_defs lve desc post obj2)"
  by (simp add: check_from_defs_append)

lemma check_list_loop_append:
  "check_list_loop lve desc f i (xs @ ys) acc =
     (case check_list_loop lve desc f i xs acc of
        Inl ex \<Rightarrow> Inl ex
      | Inr acc' \<Rightarrow> check_list_loop lve desc f (i + length xs) ys acc')"
  by (induction xs arbitrary: i acc) (auto split: sum.splits)

lemma py_len_error_class: "py_len v = Inl ex \<Longrightarrow> exn_class ex = TypeError"
  by (auto simp: py_len_def split: pyval.splits)

section \<open>The content-hash validator\<close>

text \<open>
  What the pattern of \<^verbatim>\<open>validate_md5\<close> accepts: 32 hexadecimal characters, or 32
  hexadecimal characters and one newline after them.
\<close>

lemma md5_re_search_iff:
  "md5_re_search s \<longleftrightarrow>
     list_all is_hex_char (take 32 s) \<and>
     (length s = 32 \<or> (length s = 33 \<and> s ! 32 = CHR 0x0A))"
proof -
  have a: "drop 32 s = [] \<longleftrightarrow> length s \<le> 32" by simp
  have b: "drop 32 s = [CHR 0x0A] \<longleftrightarrow> length s = 33 \<and> s ! 32 = CHR 0x0A"
  proof
    assume h: "drop 32 s = [CHR 0x0A]"
    then have "length (drop 32 s) = 1" by simp
    then have l: "length s = 33" by simp
    have "s ! 32 = drop 32 s ! 0" using l by (simp add: nth_drop)
    then show "length s = 33 \<and> s ! 32 = CHR 0x0A" using h l by simp
  next
    assume h: "length s = 33 \<and> s ! 32 = CHR 0x0A"
    then have "length (drop 32 s) = 1" by simp
    then obtain c where c: "drop 32 s = [c]"
      by (cases "drop 32 s") auto
    have "s ! 32 = drop 32 s ! 0" using h by (simp add: nth_drop)
    then show "drop 32 s = [CHR 0x0A]" using c h by simp
  qed
  show ?thesis
    unfolding md5_re_search_def a b by auto
qed

text \<open>
  C2. The content-hash validator is to succeed on the strings of exactly 32 hexadecimal
  characters and on no other string, a string with a trailing newline included. The
  validator accepts the 33-character string made of the 32 hexadecimal characters
  \<^verbatim>\<open>d41d8cd98f00b204e9800998ecf8427e\<close> and a newline: \<^verbatim>\<open>$\<close> matches before a final newline.
\<close>

theorem validate_md5_trailing_newline_accepted:
  "validate_md5 (VStr (''d41d8cd98f00b204e9800998ecf8427e'' @ [CHR 0x0A])) = None"
  by (simp add: validate_md5_def md5_re_search_def is_hex_char_def)

section \<open>The emptiness check and values without a length\<close>

text \<open>
  C9. The emptiness check calls \<^verbatim>\<open>len\<close> on the value of a present field before any type
  check or conversion. When the field does not allow empty values and the value has no
  length, \<^verbatim>\<open>check_from_defs\<close> ends with the \<^verbatim>\<open>TypeError\<close> of \<^verbatim>\<open>len\<close> itself, not with
  an \<^verbatim>\<open>LrgaspException\<close>, whatever the declared type: so also for an \<^verbatim>\<open>int\<close> value of an
  \<^verbatim>\<open>int\<close> field. The record is left as the fields before it left it.
\<close>

theorem length_of_unsized_value_raises_TypeError:
  assumes "check_from_defs lve desc pre obj = (None, obj1)"
    and "obj1 (name f) = Some v"
    and "\<not> allow_empty f"
    and "py_len v = Inl ex"
  shows "check_from_defs lve desc (pre @ f # post) obj = (Some ex, obj1) \<and>
         exn_class ex = TypeError"
proof -
  have "is_disallowed_empty f v = Inl ex"
    using assms(3,4) by (simp add: is_disallowed_empty_def)
  then have "check_present_field lve desc f obj1 = (Some ex, obj1)"
    using assms(2) by (simp add: check_present_field_def)
  moreover have "name f \<in> dom obj1" using assms(2) by auto
  ultimately have "check_field lve desc f obj1 = (Some ex, obj1)"
    by (simp add: check_field_def)
  then show ?thesis
    using check_from_defs_reach [OF assms(1), of f post] py_len_error_class [OF assms(4)]
    by simp
qed

theorem length_of_unsized_value_raises_TypeError_witness:
  "check_from_defs False ''entry''
     ([] @ \<lparr>name = ''n'', dtype = Prim TInt, element_dtype = None, allow_empty = False,
            optional = False, validator = None\<rparr> # []) [''n'' \<mapsto> VInt 5]
     = (Some (Exn TypeError ''object of type 'int' has no len()'' None), [''n'' \<mapsto> VInt 5]) \<and>
   isinstance (VInt 5) TInt"
  using length_of_unsized_value_raises_TypeError
    [of False "''entry''" "[]" "[''n'' \<mapsto> VInt 5]" "[''n'' \<mapsto> VInt 5]"
        "\<lparr>name = ''n'', dtype = Prim TInt, element_dtype = None, allow_empty = False,
            optional = False, validator = None\<rparr>"
        "VInt 5" "Exn TypeError ''object of type 'int' has no len()'' None" "[]"]
  by (simp add: py_len_def py_type_name_def repr_str_def repr_char_def is_printable_def Let_def)

section \<open>Schema order\<close>

text \<open>
  A call that fails has failed at one field, after the fields before it have passed, and
  returns the record as they left it.
\<close>

lemma check_from_defs_failure_decompose:
  "check_from_defs lve desc fs obj = (Some ex, obj') \<Longrightarrow>
   \<exists>pre f post. fs = pre @ f # post \<and>
      check_from_defs lve desc pre obj = (None, obj') \<and>
      check_field lve desc f obj' = (Some ex, obj')"
proof (induction fs arbitrary: obj)
  case Nil
  then show ?case by simp
next
  case (Cons g gs)
  obtain r o1 where c: "check_field lve desc g obj = (r, o1)"
    by (cases "check_field lve desc g obj")
  show ?case
  proof (cases r)
    case (Some e)
    then have "e = ex" "o1 = obj'" using Cons.prems c by simp_all
    moreover have "o1 = obj" using c Some check_field_fail_unchanged by blast
    ultimately have "g # gs = [] @ g # gs \<and> check_from_defs lve desc [] obj = (None, obj') \<and>
        check_field lve desc g obj' = (Some ex, obj')"
      using c Some by simp
    then show ?thesis by blast
  next
    case None
    then have "check_from_defs lve desc gs o1 = (Some ex, obj')"
      using Cons.prems c by simp
    from Cons.IH [OF this] obtain pre f post where
      p: "gs = pre @ f # post" "check_from_defs lve desc pre o1 = (None, obj')"
         "check_field lve desc f obj' = (Some ex, obj')"
      by blast
    have "g # gs = (g # pre) @ f # post" using p(1) by simp
    moreover have "check_from_defs lve desc (g # pre) obj = (None, obj')"
      using c None p(2) by simp
    ultimately show ?thesis using p(3) by blast
  qed
qed

text \<open>
  C5. \<^verbatim>\<open>check_from_defs\<close> is fail-fast over schema order. When the fields before a field
  have all passed and that field's check raises, the call ends with that exception: whatever
  fields follow, none of them is checked or written. The record is then the record as the
  passed fields left it, with their converted values written back and the failing field's
  value untouched: there is no atomicity across the record.
\<close>

theorem check_from_defs_fail_fast:
  assumes "check_from_defs lve desc pre obj = (None, obj1)"
    and "check_field lve desc f obj1 = (Some ex, obj2)"
  shows "check_from_defs lve desc (pre @ f # post) obj = (Some ex, obj1)"
proof -
  have "obj2 = obj1"
    using assms(2) by (rule check_field_fail_unchanged)
  then show ?thesis
    using check_from_defs_reach [OF assms(1), of f post] assms(2) by simp
qed

theorem check_from_defs_fail_fast_witness:
  "check_from_defs False ''entry''
     ([\<lparr>name = ''a'', dtype = TBool, element_dtype = None, allow_empty = False,
         optional = False, validator = None\<rparr>]
      @ \<lparr>name = ''b'', dtype = Prim TStr, element_dtype = None, allow_empty = False,
          optional = False, validator = None\<rparr>
      # [\<lparr>name = ''c'', dtype = Prim TStr, element_dtype = None, allow_empty = False,
           optional = False, validator = None\<rparr>])
     [''a'' \<mapsto> VStr ''yes'']
   = (Some (Exn LrgaspException ''entry field b is required'' None), [''a'' \<mapsto> VBool True])"
  using check_from_defs_fail_fast
    [of False "''entry''"
        "[\<lparr>name = ''a'', dtype = TBool, element_dtype = None, allow_empty = False,
           optional = False, validator = None\<rparr>]"
        "[''a'' \<mapsto> VStr ''yes'']" "[''a'' \<mapsto> VBool True]"
        "\<lparr>name = ''b'', dtype = Prim TStr, element_dtype = None, allow_empty = False,
          optional = False, validator = None\<rparr>"
        "Exn LrgaspException ''entry field b is required'' None"
        "[''a'' \<mapsto> VBool True]"
        "[\<lparr>name = ''c'', dtype = Prim TStr, element_dtype = None, allow_empty = False,
           optional = False, validator = None\<rparr>]"]
  by (simp add: check_field_def check_present_field_def check_missing_field_def
      is_disallowed_empty_def py_len_def TBool_def check_scalar_def convert_type_def
      bool_call_def validate_and_return_def)

section \<open>Absent fields\<close>

text \<open>
  C6. For a field descriptor whose name is absent from the target record, reached after
  the fields before it have passed: if the field is not optional, \<^verbatim>\<open>check_from_defs\<close>
  fails with the \<^verbatim>\<open>LrgaspException\<close> \<open>"<desc> field <name> is required"\<close>; if it is
  optional, nothing is done for it and the call goes on with the next field. In both cases
  the name is still absent from the record when the call ends.
\<close>

theorem absent_field_required_or_skipped:
  assumes "check_from_defs lve desc pre obj = (None, obj1)"
    and "name f \<notin> dom obj"
  shows "(\<not> optional f \<longrightarrow>
            check_from_defs lve desc (pre @ f # post) obj
              = (Some (Exn LrgaspException (desc @ '' field '' @ name f @ '' is required'') None),
                 obj1)) \<and>
         (optional f \<longrightarrow>
            check_field lve desc f obj1 = (None, obj1) \<and>
            check_from_defs lve desc (pre @ f # post) obj = check_from_defs lve desc post obj1) \<and>
         snd (check_from_defs lve desc (pre @ f # post) obj) (name f) = None"
proof -
  have "dom obj1 = dom obj"
    using check_from_defs_dom [of lve desc pre obj] assms(1) by simp
  then have absent: "name f \<notin> dom obj1" using assms(2) by simp
  then have cf: "check_field lve desc f obj1 = check_missing_field desc f obj1"
    by (simp add: check_field_def)
  have "name f \<notin> dom (snd (check_from_defs lve desc (pre @ f # post) obj))"
    using assms(2) by (simp add: check_from_defs_dom)
  then have last: "snd (check_from_defs lve desc (pre @ f # post) obj) (name f) = None"
    by (simp add: domIff)
  show ?thesis
    using check_from_defs_reach [OF assms(1), of f post] cf last
    by (simp add: check_missing_field_def)
qed

theorem absent_field_required_or_skipped_witness:
  "check_from_defs False ''entry''
     ([] @ \<lparr>name = ''b'', dtype = Prim TStr, element_dtype = None, allow_empty = False,
            optional = False, validator = None\<rparr> # []) Map.empty
     = (Some (Exn LrgaspException ''entry field b is required'' None), Map.empty) \<and>
   check_from_defs False ''entry''
     ([] @ \<lparr>name = ''b'', dtype = Prim TStr, element_dtype = None, allow_empty = False,
            optional = True, validator = None\<rparr> # []) Map.empty
     = check_from_defs False ''entry'' [] Map.empty \<and>
   snd (check_from_defs False ''entry''
     ([] @ \<lparr>name = ''b'', dtype = Prim TStr, element_dtype = None, allow_empty = False,
            optional = True, validator = None\<rparr> # []) Map.empty) ''b'' = None"
  using absent_field_required_or_skipped
    [of False "''entry''" "[]" Map.empty Map.empty
        "\<lparr>name = ''b'', dtype = Prim TStr, element_dtype = None, allow_empty = False,
          optional = False, validator = None\<rparr>" "[]"]
    absent_field_required_or_skipped
    [of False "''entry''" "[]" Map.empty Map.empty
        "\<lparr>name = ''b'', dtype = Prim TStr, element_dtype = None, allow_empty = False,
          optional = True, validator = None\<rparr>" "[]"]
  by simp

section \<open>Constructing a field descriptor\<close>

text \<open>
  C3, as stated, asks that the error of constructing a list field without an element type be
  of a kind distinct from the error raised for data problems. Both are raised as
  \<^verbatim>\<open>LrgaspException\<close>: the construction error of a list field \<open>x\<close> and the error for a
  required field \<open>x\<close> that is absent have the same class.
\<close>

theorem construction_error_class_counterexample:
  "Field_new ''x'' (Conv TList) None False False None
     = Inl (Exn LrgaspException ''list field {name} must specify element_dtype'' None) \<and>
   fst (check_from_defs False ''entry''
          [\<lparr>name = ''x'', dtype = Prim TStr, element_dtype = None, allow_empty = False,
            optional = False, validator = None\<rparr>] Map.empty)
     = Some (Exn LrgaspException ''entry field x is required'' None) \<and>
   \<not> (exn_class (Exn LrgaspException ''list field {name} must specify element_dtype'' None)
        \<noteq> exn_class (Exn LrgaspException ''entry field x is required'' None))"
  by (simp add: Field_new_def check_field_def check_missing_field_def)

text \<open>
  C3, amended. Constructing a field descriptor of declared type \<^verbatim>\<open>list\<close> with no element
  type fails with an \<^verbatim>\<open>LrgaspException\<close> at construction, whatever the other arguments: no
  descriptor exists to validate a record with. The class is the one the program raises for
  data problems too (here: a required field that is absent), so the two kinds of error differ
  in their message only.
\<close>

theorem Field_new_list_fails_with_LrgaspException:
  "(\<exists>m. Field_new nm (Conv TList) None ae opt vd = Inl (Exn LrgaspException m None)) \<and>
   (name f \<notin> dom obj \<and> \<not> optional f \<longrightarrow>
      (\<exists>m. check_from_defs lve desc (f # rest) obj = (Some (Exn LrgaspException m None), obj)))"
  by (simp add: Field_new_def check_field_def check_missing_field_def)

theorem Field_new_list_fails_with_LrgaspException_witness:
  "(\<exists>m. Field_new ''x'' (Conv TList) None False False None = Inl (Exn LrgaspException m None)) \<and>
   (\<exists>m. check_from_defs False ''entry''
          (\<lparr>name = ''x'', dtype = Prim TStr, element_dtype = None, allow_empty = False,
            optional = False, validator = None\<rparr> # []) Map.empty
        = (Some (Exn LrgaspException m None), Map.empty))"
  using Field_new_list_fails_with_LrgaspException
    [of "''x''" False False None
        "\<lparr>name = ''x'', dtype = Prim TStr, element_dtype = None, allow_empty = False,
          optional = False, validator = None\<rparr>" Map.empty False "''entry''" "[]"]
  by simp

text \<open>
  C10, as stated, says that for every field name the message of the construction error does
  not contain the name. For the field name \<open>name\<close> it does: the unsubstituted placeholder
  \<^verbatim>\<open>{name}\<close> contains it.
\<close>

theorem Field_new_message_contains_name_counterexample:
  "Field_new ''name'' (Conv TList) None False False None
     = Inl (Exn LrgaspException ''list field {name} must specify element_dtype'' None) \<and>
   sublist ''name'' (message (Exn LrgaspException ''list field {name} must specify element_dtype'' None))"
proof -
  have "''list field {name} must specify element_dtype''
          = ''list field {'' @ ''name'' @ ''} must specify element_dtype''"
    by simp
  then have "sublist ''name'' ''list field {name} must specify element_dtype''"
    unfolding sublist_def by blast
  then show ?thesis by (simp add: Field_new_def)
qed

text \<open>
  C10, amended. The construction error of a list field without an element type carries the
  literal message \<^verbatim>\<open>list field {name} must specify element_dtype\<close>, placeholder
  unsubstituted, the same for every field name; the message contains no field name that is
  not already a part of that fixed text.
\<close>

theorem Field_new_message_is_literal:
  "Field_new nm (Conv TList) None ae opt vd
     = Inl (Exn LrgaspException ''list field {name} must specify element_dtype'' None) \<and>
   (\<not> sublist nm ''list field {name} must specify element_dtype'' \<longrightarrow>
      \<not> sublist nm (case Field_new nm (Conv TList) None ae opt vd of
                        Inl e \<Rightarrow> message e | Inr f \<Rightarrow> []))"
  by (simp add: Field_new_def)

theorem Field_new_message_is_literal_witness:
  "Field_new ''xs'' (Conv TList) None False False None
     = Inl (Exn LrgaspException ''list field {name} must specify element_dtype'' None) \<and>
   \<not> sublist ''xs'' ''list field {name} must specify element_dtype'' \<and>
   \<not> sublist ''xs'' (case Field_new ''xs'' (Conv TList) None False False None of
                        Inl e \<Rightarrow> message e | Inr f \<Rightarrow> [])"
proof -
  have n: "\<not> sublist ''xs'' ''list field {name} must specify element_dtype''"
    by code_simp
  show ?thesis
    using Field_new_message_is_literal [of "''xs''" False False None] n by simp
qed

section \<open>The scalar checker\<close>

text \<open>
  C7, as stated, says that the scalar checker answers every failure of a type's constructor
  with the \<^verbatim>\<open>LrgaspException\<close> \<open>"is not a valid <kind>: <value>"\<close>. \<^verbatim>\<open>_convert_type\<close> catches
  \<^verbatim>\<open>ValueError\<close> only: for the declared type \<^verbatim>\<open>list\<close> and the value \<^verbatim>\<open>5\<close>, \<^verbatim>\<open>list(5)\<close> raises a
  \<^verbatim>\<open>TypeError\<close>, and \<^verbatim>\<open>_check_scalar\<close> ends with that \<^verbatim>\<open>TypeError\<close>. So does
  \<^verbatim>\<open>check_from_defs\<close> on a list field with element type \<^verbatim>\<open>list\<close> that holds \<^verbatim>\<open>[5]\<close>, where the
  element check makes the same call.
\<close>

theorem conversion_failure_wrapped_counterexample:
  "py_call TList (VInt 5) = Inl (Exn TypeError (repr_str ''int'' @ '' object is not iterable'') None) \<and>
   check_scalar True ''entry''
     \<lparr>name = ''x'', dtype = Conv TList, element_dtype = Some (Prim TStr), allow_empty = False,
      optional = False, validator = None\<rparr> (VInt 5)
     = Inl (Exn TypeError (repr_str ''int'' @ '' object is not iterable'') None) \<and>
   check_scalar False ''entry''
     \<lparr>name = ''x'', dtype = Conv TList, element_dtype = Some (Prim TStr), allow_empty = False,
      optional = False, validator = None\<rparr> (VInt 5)
     = Inl (Exn TypeError (repr_str ''int'' @ '' object is not iterable'') None) \<and>
   fst (check_from_defs True ''entry''
     [\<lparr>name = ''x'', dtype = Conv TList, element_dtype = Some (Conv TList), allow_empty = False,
       optional = False, validator = None\<rparr>] [''x'' \<mapsto> VList [VInt 5]])
     = Some (Exn TypeError (repr_str ''int'' @ '' object is not iterable'') None) \<and>
   fst (check_from_defs False ''entry''
     [\<lparr>name = ''x'', dtype = Conv TList, element_dtype = Some (Conv TList), allow_empty = False,
       optional = False, validator = None\<rparr>] [''x'' \<mapsto> VList [VInt 5]])
     = Some (Exn TypeError (repr_str ''int'' @ '' object is not iterable'') None) \<and>
   Exn TypeError (repr_str ''int'' @ '' object is not iterable'') None
     \<noteq> Exn LrgaspException ''entry field x is not a valid list: 5''
         (Some (Exn TypeError (repr_str ''int'' @ '' object is not iterable'') None))"
  by (simp add: check_scalar_def convert_type_def list_call_def py_type_name_def
      check_field_def check_present_field_def is_disallowed_empty_def py_len_def
      check_list_def check_list_element_def)

text \<open>
  C7, amended. For a declared type among \<^verbatim>\<open>str\<close>, \<^verbatim>\<open>int\<close> and \<^verbatim>\<open>dict\<close>, the scalar checker
  fails with the \<^verbatim>\<open>LrgaspException\<close> \<open>"<desc> field <name> must be a <kind>"\<close> whenever the value is
  not an instance of the type. For every other declared type it calls the type on the value;
  when the call raises a \<^verbatim>\<open>ValueError\<close> it fails with the \<^verbatim>\<open>LrgaspException\<close>
  \<open>"<desc> field <name> is not a valid <kind>: <value>"\<close>, the \<^verbatim>\<open>ValueError\<close> as its cause, and
  when the call raises any other exception it fails with that exception, unchanged.
\<close>

theorem check_scalar_type_errors:
  "(dtype f = Prim pt \<and> \<not> isinstance v pt \<longrightarrow>
      check_scalar lve desc f v
        = Inl (Exn LrgaspException (desc @ '' field '' @ name f @ '' must be a '' @ prim_name pt)
                 None)) \<and>
   (dtype f = Conv ct \<and> py_call ct v = Inl ex \<longrightarrow>
      check_scalar lve desc f v
        = Inl (if is_ValueError lve ex
               then Exn LrgaspException
                      (desc @ '' field '' @ name f @ '' is not a valid '' @ conv_name ct @ '': ''
                         @ py_str v) (Some ex)
               else ex))"
  by (simp add: check_scalar_def convert_type_def)

theorem check_scalar_type_errors_witness:
  "check_scalar False ''entry''
     \<lparr>name = ''x'', dtype = Prim TInt, element_dtype = None, allow_empty = False,
      optional = False, validator = None\<rparr> (VStr ''7'')
     = Inl (Exn LrgaspException ''entry field x must be a int'' None) \<and>
   check_scalar False ''entry''
     \<lparr>name = ''x'', dtype = Conv (TClass ''Platform'' (\<lambda>v. Inl (Exn ValueError ''unknown'' None))),
      element_dtype = None, allow_empty = False, optional = False, validator = None\<rparr> (VStr ''7'')
     = Inl (Exn LrgaspException ''entry field x is not a valid Platform: 7''
              (Some (Exn ValueError ''unknown'' None)))"
  using check_scalar_type_errors
    [of "\<lparr>name = ''x'', dtype = Prim TInt, element_dtype = None, allow_empty = False,
          optional = False, validator = None\<rparr>" TInt "VStr ''7''" False "''entry''"]
    check_scalar_type_errors
    [of "\<lparr>name = ''x'', dtype = Conv (TClass ''Platform'' (\<lambda>v. Inl (Exn ValueError ''unknown'' None))),
          element_dtype = None, allow_empty = False, optional = False, validator = None\<rparr>"
        _ "VStr ''7''" False "''entry''" "TClass ''Platform'' (\<lambda>v. Inl (Exn ValueError ''unknown'' None))"
        "Exn ValueError ''unknown'' None"]
  by (simp add: py_str_def)

section \<open>Empty values\<close>

text \<open>
  C8, as stated, says that every present field whose value has length zero succeeds, value
  unchanged, when \<^verbatim>\<open>allow_empty\<close> is true. The type check still follows: an \<^verbatim>\<open>int\<close> field
  that allows empty values and holds the empty string fails with \<open>"must be a int"\<close>.
\<close>

theorem allow_empty_succeeds_counterexample:
  "py_len (VStr []) = Inr 0 \<and>
   check_from_defs True ''entry''
     [\<lparr>name = ''x'', dtype = Prim TInt, element_dtype = None, allow_empty = True,
       optional = False, validator = None\<rparr>] [''x'' \<mapsto> VStr []]
     = (Some (Exn LrgaspException ''entry field x must be a int'' None), [''x'' \<mapsto> VStr []]) \<and>
   check_from_defs False ''entry''
     [\<lparr>name = ''x'', dtype = Prim TInt, element_dtype = None, allow_empty = True,
       optional = False, validator = None\<rparr>] [''x'' \<mapsto> VStr []]
     = (Some (Exn LrgaspException ''entry field x must be a int'' None), [''x'' \<mapsto> VStr []])"
  by (simp add: py_len_def check_field_def check_present_field_def is_disallowed_empty_def
      check_scalar_def)

text \<open>
  C8, amended. For a present field whose value has length zero, reached after the fields
  before it have passed: if \<^verbatim>\<open>allow_empty\<close> is false, \<^verbatim>\<open>check_from_defs\<close> fails with the
  \<^verbatim>\<open>LrgaspException\<close> \<open>"<desc> field <name> must be a non-empty <kind>"\<close>, whatever the declared
  type and the validator, so before any type check or conversion. If \<^verbatim>\<open>allow_empty\<close> is
  true, the emptiness check is passed over and the field succeeds with its value unchanged
  when the value is the empty list of a list field, or is an instance of the declared type
  \<^verbatim>\<open>str\<close>, \<^verbatim>\<open>int\<close> or \<^verbatim>\<open>dict\<close> that the validator, if there is one, accepts.
\<close>

theorem empty_value_check:
  assumes "check_from_defs lve desc pre obj = (None, obj1)"
    and "obj1 (name f) = Some v"
    and "py_len v = Inr 0"
  shows "(\<not> allow_empty f \<longrightarrow>
            check_from_defs lve desc (pre @ f # post) obj
              = (Some (Exn LrgaspException
                   (desc @ '' field '' @ name f @ '' must be a non-empty '' @ type_name (dtype f))
                   None), obj1)) \<and>
         (allow_empty f \<and>
          ((is_list_type (dtype f) \<and> v = VList []) \<or>
           (\<exists>pt. dtype f = Prim pt \<and> isinstance v pt \<and>
              (case validator f of None \<Rightarrow> True | Some vd \<Rightarrow> vd v = None))) \<longrightarrow>
            check_field lve desc f obj1 = (None, obj1) \<and>
            check_from_defs lve desc (pre @ f # post) obj = check_from_defs lve desc post obj1)"
proof -
  have present: "name f \<in> dom obj1" using assms(2) by auto
  have same: "obj1(name f \<mapsto> v) = obj1" using assms(2) by (rule map_upd_triv)
  have reach: "check_from_defs lve desc (pre @ f # post) obj =
     (case check_field lve desc f obj1 of
        (Some ex, obj2) \<Rightarrow> (Some ex, obj2)
      | (None, obj2) \<Rightarrow> check_from_defs lve desc post obj2)"
    using assms(1) by (rule check_from_defs_reach)
  have a: "check_from_defs lve desc (pre @ f # post) obj
              = (Some (Exn LrgaspException
                   (desc @ '' field '' @ name f @ '' must be a non-empty '' @ type_name (dtype f))
                   None), obj1)" if "\<not> allow_empty f"
  proof -
    have "is_disallowed_empty f v = Inr True"
      using that assms(3) by (simp add: is_disallowed_empty_def)
    then show ?thesis
      using reach present assms(2) by (simp add: check_field_def check_present_field_def)
  qed
  have b: "check_field lve desc f obj1 = (None, obj1)"
    if ae: "allow_empty f" and ok: "(is_list_type (dtype f) \<and> v = VList []) \<or>
           (\<exists>pt. dtype f = Prim pt \<and> isinstance v pt \<and>
              (case validator f of None \<Rightarrow> True | Some vd \<Rightarrow> vd v = None))"
  proof -
    have e: "is_disallowed_empty f v = Inr False"
      using ae by (simp add: is_disallowed_empty_def)
    from ok show ?thesis
    proof
      assume "is_list_type (dtype f) \<and> v = VList []"
      then show ?thesis
        using e present assms(2) same
        by (simp add: check_field_def check_present_field_def check_list_def)
    next
      assume "\<exists>pt. dtype f = Prim pt \<and> isinstance v pt \<and>
              (case validator f of None \<Rightarrow> True | Some vd \<Rightarrow> vd v = None)"
      then obtain pt where p: "dtype f = Prim pt" "isinstance v pt"
          "case validator f of None \<Rightarrow> True | Some vd \<Rightarrow> vd v = None"
        by blast
      have "validate_and_return lve desc f v = Inr v"
      proof (cases "validator f")
        case None
        then show ?thesis by (simp add: validate_and_return_def)
      next
        case (Some vd)
        then have "vd v = None" using p(3) by simp
        then show ?thesis using Some by (simp add: validate_and_return_def validate_value_def)
      qed
      then have "check_scalar lve desc f v = Inr v"
        using p(1,2) by (simp add: check_scalar_def)
      then show ?thesis
        using e present assms(2) same p(1)
        by (simp add: check_field_def check_present_field_def)
    qed
  qed
  show ?thesis
    using a b reach by simp
qed

theorem empty_value_check_witness:
  "check_from_defs False ''entry''
     ([] @ \<lparr>name = ''x'', dtype = Prim TStr, element_dtype = None, allow_empty = False,
            optional = False, validator = None\<rparr> # []) [''x'' \<mapsto> VStr []]
     = (Some (Exn LrgaspException ''entry field x must be a non-empty str'' None),
        [''x'' \<mapsto> VStr []]) \<and>
   check_field False ''entry''
     \<lparr>name = ''x'', dtype = Prim TStr, element_dtype = None, allow_empty = True,
      optional = False, validator = None\<rparr> [''x'' \<mapsto> VStr []]
     = (None, [''x'' \<mapsto> VStr []])"
  using empty_value_check
    [of False "''entry''" "[]" "[''x'' \<mapsto> VStr []]" "[''x'' \<mapsto> VStr []]"
        "\<lparr>name = ''x'', dtype = Prim TStr, element_dtype = None, allow_empty = False,
          optional = False, validator = None\<rparr>" "VStr []" "[]"]
    empty_value_check
    [of False "''entry''" "[]" "[''x'' \<mapsto> VStr []]" "[''x'' \<mapsto> VStr []]"
        "\<lparr>name = ''x'', dtype = Prim TStr, element_dtype = None, allow_empty = True,
          optional = False, validator = None\<rparr>" "VStr []" "[]"]
  by (simp add: py_len_def)

section \<open>The list checker\<close>

text \<open>
  A list that passes: its result holds, index by index, the converted elements, and no
  converted element is equal to one accepted before it.
\<close>

lemma check_list_loop_success:
  "check_list_loop lve desc f i xs acc = Inr r \<Longrightarrow>
   \<exists>cs. r = acc @ cs \<and> length cs = length xs \<and>
        (\<forall>k<length xs. check_list_element lve desc f (i + k) (xs ! k) = Inr (cs ! k)) \<and>
        (\<forall>k<length cs. \<not> py_in (cs ! k) (acc @ take k cs))"
proof (induction xs arbitrary: i acc r)
  case Nil
  then show ?case by simp
next
  case (Cons x xs)
  from Cons.prems obtain c where
    c: "check_list_element lve desc f i x = Inr c"
    and fresh: "\<not> py_in c acc"
    and rest: "check_list_loop lve desc f (Suc i) xs (acc @ [c]) = Inr r"
    by (auto split: sum.splits if_splits)
  from Cons.IH [OF rest] obtain cs where
    cs: "r = (acc @ [c]) @ cs" "length cs = length xs"
      "\<forall>k<length xs. check_list_element lve desc f (Suc i + k) (xs ! k) = Inr (cs ! k)"
      "\<forall>k<length cs. \<not> py_in (cs ! k) ((acc @ [c]) @ take k cs)"
    by blast
  have a: "r = acc @ (c # cs)" using cs(1) by simp
  have b: "length (c # cs) = length (x # xs)" using cs(2) by simp
  have d: "\<forall>k<length (x # xs).
             check_list_element lve desc f (i + k) ((x # xs) ! k) = Inr ((c # cs) ! k)"
  proof (intro allI impI)
    fix k assume "k < length (x # xs)"
    then show "check_list_element lve desc f (i + k) ((x # xs) ! k) = Inr ((c # cs) ! k)"
      using c cs(3) by (cases k) auto
  qed
  have e: "\<forall>k<length (c # cs). \<not> py_in ((c # cs) ! k) (acc @ take k (c # cs))"
  proof (intro allI impI)
    fix k assume "k < length (c # cs)"
    then show "\<not> py_in ((c # cs) ! k) (acc @ take k (c # cs))"
      using fresh cs(4) by (cases k) auto
  qed
  show ?case using a b d e by blast
qed

lemma check_list_success:
  "check_list lve desc f (VList xs) = Inr cs \<Longrightarrow>
   length cs = length xs \<and>
   (\<forall>k<length xs. check_list_element lve desc f k (xs ! k) = Inr (cs ! k)) \<and>
   (\<forall>k<length cs. \<not> py_in (cs ! k) (take k cs))"
  using check_list_loop_success [of lve desc f 0 xs "[]" cs]
  by (auto simp: check_list_def)

text \<open>
  C4. The list checker compares each newly converted element with every converted element
  accepted before it, not with the raw inputs. Let the elements \<open>pre\<close> have passed with the
  converted elements \<open>cs\<close> (index by index the results of the element check), and let the next
  element convert to \<open>c\<close>. If \<open>c\<close> is equal to a member of \<open>cs\<close>, the checker fails with the
  \<^verbatim>\<open>LrgaspException\<close> \<open>"<desc> [<index>] field <name> duplicate value <c>"\<close>, whatever follows;
  otherwise \<open>c\<close> is accepted after \<open>cs\<close>. For a list of strings with no validator, the inputs
  \<^verbatim>\<open>["a", "a"]\<close> fail at index 1 and the inputs \<^verbatim>\<open>["a", "b"]\<close> are returned unchanged, in order.
\<close>

theorem check_list_duplicate_detection:
  assumes "check_list lve desc f (VList pre) = Inr cs"
    and "check_list_element lve desc f (length pre) v = Inr c"
  shows "length cs = length pre \<and>
         (\<forall>k<length pre. check_list_element lve desc f k (pre ! k) = Inr (cs ! k)) \<and>
         (py_in c cs \<longrightarrow>
            check_list lve desc f (VList (pre @ v # post))
              = Inl (Exn LrgaspException
                  (desc @ '' ['' @ str_of_nat (length pre) @ ''] field '' @ name f
                     @ '' duplicate value '' @ py_str c) None)) \<and>
         (\<not> py_in c cs \<longrightarrow> check_list lve desc f (VList (pre @ [v])) = Inr (cs @ [c])) \<and>
         (element_dtype g = Some (Prim TStr) \<and> validator g = None \<longrightarrow>
            check_list lve desc g (VList [VStr ''a'', VStr ''a''])
              = Inl (Exn LrgaspException
                  (desc @ '' [1] field '' @ name g @ '' duplicate value a'') None) \<and>
            check_list lve desc g (VList [VStr ''a'', VStr ''b'']) = Inr [VStr ''a'', VStr ''b''])"
proof -
  have loop: "check_list_loop lve desc f 0 pre [] = Inr cs"
    using assms(1) by (simp add: check_list_def)
  have s: "length cs = length pre \<and>
         (\<forall>k<length pre. check_list_element lve desc f k (pre ! k) = Inr (cs ! k))"
    using check_list_success [OF assms(1)] by simp
  have d: "check_list lve desc f (VList (pre @ v # post))
              = Inl (Exn LrgaspException
                  (desc @ '' ['' @ str_of_nat (length pre) @ ''] field '' @ name f
                     @ '' duplicate value '' @ py_str c) None)" if "py_in c cs"
    using that loop assms(2) by (simp add: check_list_def check_list_loop_append)
  have n: "check_list lve desc f (VList (pre @ [v])) = Inr (cs @ [c])" if "\<not> py_in c cs"
    using that loop assms(2) by (simp add: check_list_def check_list_loop_append)
  have ex: "check_list lve desc g (VList [VStr ''a'', VStr ''a''])
              = Inl (Exn LrgaspException
                  (desc @ '' [1] field '' @ name g @ '' duplicate value a'') None) \<and>
            check_list lve desc g (VList [VStr ''a'', VStr ''b'']) = Inr [VStr ''a'', VStr ''b'']"
    if "element_dtype g = Some (Prim TStr) \<and> validator g = None"
    using that
    by (simp add: check_list_def check_list_element_def validate_and_return_def py_in_def
        py_str_def str_of_nat.simps)
  show ?thesis using s d n ex by blast
qed

theorem check_list_duplicate_detection_witness:
  "check_list False ''entry''
     \<lparr>name = ''tags'', dtype = Conv TList, element_dtype = Some TBool, allow_empty = False,
      optional = False, validator = None\<rparr> (VList ([VStr ''a''] @ VStr ''b'' # []))
     = Inl (Exn LrgaspException ''entry [1] field tags duplicate value True'' None) \<and>
   check_list False ''entry''
     \<lparr>name = ''tags'', dtype = Conv TList, element_dtype = Some (Prim TStr), allow_empty = False,
      optional = False, validator = None\<rparr> (VList ([VStr ''a''] @ [VStr ''b'']))
     = Inr ([VStr ''a''] @ [VStr ''b'']) \<and>
   check_list False ''entry''
     \<lparr>name = ''tags'', dtype = Conv TList, element_dtype = Some (Prim TStr), allow_empty = False,
      optional = False, validator = None\<rparr> (VList [VStr ''a'', VStr ''a''])
     = Inl (Exn LrgaspException ''entry [1] field tags duplicate value a'' None)"
  using check_list_duplicate_detection
    [of False "''entry''"
        "\<lparr>name = ''tags'', dtype = Conv TList, element_dtype = Some TBool, allow_empty = False,
          optional = False, validator = None\<rparr>"
        "[VStr ''a'']" "[VBool True]" "VStr ''b''" "VBool True" "[]"
        "\<lparr>name = ''tags'', dtype = Conv TList, element_dtype = Some (Prim TStr),
          allow_empty = False, optional = False, validator = None\<rparr>"]
    check_list_duplicate_detection
    [of False "''entry''"
        "\<lparr>name = ''tags'', dtype = Conv TList, element_dtype = Some (Prim TStr),
          allow_empty = False, optional = False, validator = None\<rparr>"
        "[VStr ''a'']" "[VStr ''a'']" "VStr ''b''" "VStr ''b''" "[]"
        "\<lparr>name = ''tags'', dtype = Conv TList, element_dtype = Some (Prim TStr),
          allow_empty = False, optional = False, validator = None\<rparr>"]
  by (simp add: check_list_def check_list_element_def validate_and_return_def py_in_def
      py_str_def str_of_nat.simps TBool_def convert_type_def bool_call_def)

section \<open>Failures of a validator\<close>

text \<open>
  With a validator attached, the scalar check and the list-element check first do what they
  do without one, then call the validator on the value they obtained.
\<close>

lemma validate_and_return_raise:
  "validator f = Some vd \<Longrightarrow> vd v = Some ex \<Longrightarrow>
   validate_and_return lve desc f v = Inl (not_valid_error lve desc f v ex)"
  by (simp add: validate_and_return_def validate_value_def)

lemma check_scalar_with_validator:
  "check_scalar lve desc (f\<lparr>validator := None\<rparr>) raw = Inr v \<Longrightarrow>
   check_scalar lve desc f raw = validate_and_return lve desc f v"
  by (auto simp: check_scalar_def convert_type_def validate_and_return_def
      split: pytype.splits sum.splits if_splits)

lemma check_list_element_with_validator:
  "check_list_element lve desc (f\<lparr>validator := None\<rparr>) i raw = Inr v \<Longrightarrow>
   check_list_element lve desc f i raw = validate_and_return lve desc f v"
  by (auto simp: check_list_element_def convert_type_def validate_and_return_def
      split: pytype.splits sum.splits if_splits option.splits)

text \<open>
  The exceptions that the validators of this module raise by themselves are of class
  \<^verbatim>\<open>LrgaspException\<close>; the content-hash validator on a value that is not a string ends with
  the \<^verbatim>\<open>TypeError\<close> of \<^verbatim>\<open>re.search\<close>.
\<close>

lemma builtin_validators_raise_LrgaspException:
  "(validate_md5 v = Some e1 \<longrightarrow> is_ValueError lve e1 = (lve \<and> (\<exists>s. v = VStr s))) \<and>
   (ve v = Inr ok \<and> validate_email ve v = Some e2 \<longrightarrow> is_ValueError lve e2 = lve) \<and>
   (vu v = Inr ok \<and> validate_url vu v = Some e3 \<longrightarrow> is_ValueError lve e3 = lve) \<and>
   (vu (VStr s) = Inr ok \<and> validate_http_url vu (VStr s) = Some e4 \<longrightarrow>
      is_ValueError lve e4 = lve)"
  by (auto simp: validate_md5_def validate_email_def validate_url_def validate_http_url_def
      split: pyval.splits if_splits)

text \<open>
  C1, as stated, says that every exception raised by a field's validator comes out of
  \<^verbatim>\<open>check_from_defs\<close> as the \<^verbatim>\<open>LrgaspException\<close> \<open>"<desc> field <name> is not valid: <value>"\<close>,
  for the validators of this module in particular. \<^verbatim>\<open>_validate_value\<close> catches
  \<^verbatim>\<open>ValueError\<close> only. For an \<^verbatim>\<open>int\<close> field holding \<^verbatim>\<open>5\<close> with the content-hash validator
  attached, the validator raises a \<^verbatim>\<open>TypeError\<close> and \<^verbatim>\<open>check_from_defs\<close> ends with that
  \<^verbatim>\<open>TypeError\<close>, whether or not \<^verbatim>\<open>LrgaspException\<close> derives from \<^verbatim>\<open>ValueError\<close>.
\<close>

theorem validator_failure_wrapped_counterexample:
  "validate_md5 (VInt 5) = Some (Exn TypeError ''expected string or bytes-like object'' None) \<and>
   check_from_defs True ''entry''
     [\<lparr>name = ''n'', dtype = Prim TInt, element_dtype = None, allow_empty = True,
       optional = False, validator = Some validate_md5\<rparr>] [''n'' \<mapsto> VInt 5]
     = (Some (Exn TypeError ''expected string or bytes-like object'' None), [''n'' \<mapsto> VInt 5]) \<and>
   check_from_defs False ''entry''
     [\<lparr>name = ''n'', dtype = Prim TInt, element_dtype = None, allow_empty = True,
       optional = False, validator = Some validate_md5\<rparr>] [''n'' \<mapsto> VInt 5]
     = (Some (Exn TypeError ''expected string or bytes-like object'' None), [''n'' \<mapsto> VInt 5]) \<and>
   Exn TypeError ''expected string or bytes-like object'' None
     \<noteq> Exn LrgaspException ''entry field n is not valid: 5''
         (Some (Exn TypeError ''expected string or bytes-like object'' None))"
  by (simp add: check_field_def check_present_field_def is_disallowed_empty_def check_scalar_def
      validate_and_return_def validate_value_def validate_md5_def)

text \<open>
  C1, amended. Let a field have a validator that raises \<open>ex\<close> on the (possibly converted)
  value \<open>v\<close>. If \<open>ex\<close> is a \<^verbatim>\<open>ValueError\<close>, the scalar check, the list-element check and
  \<^verbatim>\<open>check_from_defs\<close> through either of them fail with the \<^verbatim>\<open>LrgaspException\<close>
  \<open>"<desc> field <name> is not valid: <v>"\<close> whose cause is \<open>ex\<close>; if \<open>ex\<close> is not a
  \<^verbatim>\<open>ValueError\<close>, they fail with \<open>ex\<close> itself. The validators of this module report an invalid
  value with an \<^verbatim>\<open>LrgaspException\<close> of their own message, which is a \<^verbatim>\<open>ValueError\<close> exactly
  when the class \<^verbatim>\<open>LrgaspException\<close> derives from \<^verbatim>\<open>ValueError\<close>; the \<^verbatim>\<open>TypeError\<close> of the
  content-hash validator on a value that is not a string never is.
\<close>

theorem validator_ValueError_is_wrapped:
  assumes "validator f = Some vd"
    and "vd v = Some ex"
  shows
    "(check_scalar lve desc (f\<lparr>validator := None\<rparr>) raw = Inr v \<longrightarrow>
        check_scalar lve desc f raw = Inl (not_valid_error lve desc f v ex)) \<and>
     (check_list_element lve desc (f\<lparr>validator := None\<rparr>) i raw = Inr v \<longrightarrow>
        check_list_element lve desc f i raw = Inl (not_valid_error lve desc f v ex)) \<and>
     (check_from_defs lve desc pre obj = (None, obj1) \<and> obj1 (name f) = Some raw \<and>
      is_disallowed_empty f raw = Inr False \<and> \<not> is_list_type (dtype f) \<and>
      check_scalar lve desc (f\<lparr>validator := None\<rparr>) raw = Inr v \<longrightarrow>
        check_from_defs lve desc (pre @ f # post) obj
          = (Some (not_valid_error lve desc f v ex), obj1)) \<and>
     (check_from_defs lve desc pre obj = (None, obj1) \<and>
      obj1 (name f) = Some (VList (xs @ raw # ys)) \<and> is_list_type (dtype f) \<and>
      check_list lve desc f (VList xs) = Inr cs \<and>
      check_list_element lve desc (f\<lparr>validator := None\<rparr>) (length xs) raw = Inr v \<longrightarrow>
        check_from_defs lve desc (pre @ f # post) obj
          = (Some (not_valid_error lve desc f v ex), obj1)) \<and>
     (validate_md5 w = Some e1 \<longrightarrow> is_ValueError lve e1 = (lve \<and> (\<exists>s. w = VStr s))) \<and>
     (ve w = Inr ok \<and> validate_email ve w = Some e2 \<longrightarrow> is_ValueError lve e2 = lve) \<and>
     (vu w = Inr ok \<and> validate_url vu w = Some e3 \<longrightarrow> is_ValueError lve e3 = lve) \<and>
     (vu (VStr s) = Inr ok \<and> validate_http_url vu (VStr s) = Some e4 \<longrightarrow>
        is_ValueError lve e4 = lve)"
proof -
  have raise: "validate_and_return lve desc f v = Inl (not_valid_error lve desc f v ex)"
    using assms by (rule validate_and_return_raise)
  have a: "check_scalar lve desc f raw = Inl (not_valid_error lve desc f v ex)"
    if "check_scalar lve desc (f\<lparr>validator := None\<rparr>) raw = Inr v"
    using check_scalar_with_validator [OF that] raise by simp
  have b: "check_list_element lve desc f i raw = Inl (not_valid_error lve desc f v ex)"
    if "check_list_element lve desc (f\<lparr>validator := None\<rparr>) i raw = Inr v" for i
    using check_list_element_with_validator [OF that] raise by simp
  have c: "check_from_defs lve desc (pre @ f # post) obj
          = (Some (not_valid_error lve desc f v ex), obj1)"
    if h: "check_from_defs lve desc pre obj = (None, obj1) \<and> obj1 (name f) = Some raw \<and>
      is_disallowed_empty f raw = Inr False \<and> \<not> is_list_type (dtype f) \<and>
      check_scalar lve desc (f\<lparr>validator := None\<rparr>) raw = Inr v"
  proof -
    have "check_scalar lve desc f raw = Inl (not_valid_error lve desc f v ex)"
      using a h by blast
    then have "check_present_field lve desc f obj1 = (Some (not_valid_error lve desc f v ex), obj1)"
      using h by (simp add: check_present_field_def)
    moreover have "name f \<in> dom obj1" using h by auto
    ultimately have "check_field lve desc f obj1 = (Some (not_valid_error lve desc f v ex), obj1)"
      by (simp add: check_field_def)
    then show ?thesis
      using check_from_defs_reach [of lve desc pre obj obj1 f post] h by simp
  qed
  have d: "check_from_defs lve desc (pre @ f # post) obj
          = (Some (not_valid_error lve desc f v ex), obj1)"
    if h: "check_from_defs lve desc pre obj = (None, obj1) \<and>
      obj1 (name f) = Some (VList (xs @ raw # ys)) \<and> is_list_type (dtype f) \<and>
      check_list lve desc f (VList xs) = Inr cs \<and>
      check_list_element lve desc (f\<lparr>validator := None\<rparr>) (length xs) raw = Inr v"
  proof -
    have loop: "check_list_loop lve desc f 0 xs [] = Inr cs"
      using h by (simp add: check_list_def)
    have el: "check_list_element lve desc f (length xs) raw = Inl (not_valid_error lve desc f v ex)"
      using b h by blast
    have "check_list lve desc f (VList (xs @ raw # ys)) = Inl (not_valid_error lve desc f v ex)"
      using loop el by (simp add: check_list_def check_list_loop_append)
    moreover have "is_disallowed_empty f (VList (xs @ raw # ys)) = Inr False"
      by (simp add: is_disallowed_empty_def py_len_def)
    ultimately have "check_present_field lve desc f obj1
                       = (Some (not_valid_error lve desc f v ex), obj1)"
      using h by (simp add: check_present_field_def)
    moreover have "name f \<in> dom obj1" using h by auto
    ultimately have "check_field lve desc f obj1 = (Some (not_valid_error lve desc f v ex), obj1)"
      by (simp add: check_field_def)
    then show ?thesis
      using check_from_defs_reach [of lve desc pre obj obj1 f post] h by simp
  qed
  show ?thesis
    using a b c d builtin_validators_raise_LrgaspException [of w e1 lve ve ok e2 vu e3 s e4]
    by blast
qed

theorem validator_ValueError_is_wrapped_witness:
  "check_from_defs True ''entry''
     ([] @ \<lparr>name = ''md5'', dtype = Prim TStr, element_dtype = None, allow_empty = False,
            optional = False, validator = Some validate_md5\<rparr> # []) [''md5'' \<mapsto> VStr ''xyz'']
     = (Some (Exn LrgaspException ''entry field md5 is not valid: xyz''
          (Some (Exn LrgaspException ''MD5 must be a 128-bit hexadecimal number: xyz'' None))),
        [''md5'' \<mapsto> VStr ''xyz'']) \<and>
   check_from_defs False ''entry''
     ([] @ \<lparr>name = ''md5'', dtype = Prim TStr, element_dtype = None, allow_empty = False,
            optional = False, validator = Some validate_md5\<rparr> # []) [''md5'' \<mapsto> VStr ''xyz'']
     = (Some (Exn LrgaspException ''MD5 must be a 128-bit hexadecimal number: xyz'' None),
        [''md5'' \<mapsto> VStr ''xyz'']) \<and>
   check_from_defs False ''entry''
     ([] @ \<lparr>name = ''id'', dtype = Prim TStr, element_dtype = None, allow_empty = False,
            optional = False, validator = Some (\<lambda>v. Some (Exn ValueError ''bad id'' None))\<rparr> # [])
     [''id'' \<mapsto> VStr ''xyz'']
     = (Some (Exn LrgaspException ''entry field id is not valid: xyz''
          (Some (Exn ValueError ''bad id'' None))),
        [''id'' \<mapsto> VStr ''xyz''])"
  using validator_ValueError_is_wrapped
    [where f = "\<lparr>name = ''md5'', dtype = Prim TStr, element_dtype = None, allow_empty = False,
                 optional = False, validator = Some validate_md5\<rparr>"
       and vd = validate_md5 and v = "VStr ''xyz''" and raw = "VStr ''xyz''"
       and ex = "Exn LrgaspException ''MD5 must be a 128-bit hexadecimal number: xyz'' None"
       and lve = True and desc = "''entry''" and pre = "[]" and post = "[]"
       and obj = "[''md5'' \<mapsto> VStr ''xyz'']" and ?obj1.0 = "[''md5'' \<mapsto> VStr ''xyz'']"]
    validator_ValueError_is_wrapped
    [where f = "\<lparr>name = ''md5'', dtype = Prim TStr, element_dtype = None, allow_empty = False,
                 optional = False, validator = Some validate_md5\<rparr>"
       and vd = validate_md5 and v = "VStr ''xyz''" and raw = "VStr ''xyz''"
       and ex = "Exn LrgaspException ''MD5 must be a 128-bit hexadecimal number: xyz'' None"
       and lve = False and desc = "''entry''" and pre = "[]" and post = "[]"
       and obj = "[''md5'' \<mapsto> VStr ''xyz'']" and ?obj1.0 = "[''md5'' \<mapsto> VStr ''xyz'']"]
    validator_ValueError_is_wrapped
    [where f = "\<lparr>name = ''id'', dtype = Prim TStr, element_dtype = None, allow_empty = False,
                 optional = False, validator = Some (\<lambda>v. Some (Exn ValueError ''bad id'' None))\<rparr>"
       and vd = "\<lambda>v. Some (Exn ValueError ''bad id'' None)" and v = "VStr ''xyz''"
       and raw = "VStr ''xyz''" and ex = "Exn ValueError ''bad id'' None"
       and lve = False and desc = "''entry''" and pre = "[]" and post = "[]"
       and obj = "[''id'' \<mapsto> VStr ''xyz'']" and ?obj1.0 = "[''id'' \<mapsto> VStr ''xyz'']"]
  by (simp add: validate_md5_def md5_re_search_def py_str_def check_scalar_def
      validate_and_return_def is_disallowed_empty_def py_len_def)

end
